theory Spec2Isabelle
  imports Main "HOL-Library.Word"
begin

section \<open>The local-binary driver plugin (libmachine/drivers/plugin/localbinary/plugin.go)\<close>

text \<open>
  The plugin supervisor starts a driver binary as a child process, reads the address the
  child listens on from the first line of its standard output, relays every later line to
  the log and waits for the child when it is told to stop.

  The embedding follows the Go file function by function.  What the operating system and
  the child decide (whether a binary is found, whether a pipe or the process can be
  created, what the child prints, how it exits) is collected in a record \<open>host\<close> that the
  functions read.  What the process owns and the code changes (arguments, environment,
  the log, the children it has started) is the record \<open>sys\<close>, passed through every call.
\<close>

subsection \<open>Constants of the package\<close>

type_synonym Duration = int  \<comment> \<open>time.Duration: a signed count of nanoseconds\<close>

definition Second :: Duration where
  "Second = 1000000000"

definition defaultTimeout :: Duration where
  "defaultTimeout = 10 * Second"

definition CoreDrivers :: "string list" where
  "CoreDrivers =
     [''amazonec2'', ''azure'', ''digitalocean'', ''exoscale'', ''generic'', ''google'',
      ''hyperv'', ''none'', ''openstack'', ''rackspace'', ''softlayer'', ''virtualbox'',
      ''vmwarefusion'', ''vmwarevcloudair'', ''vmwarevsphere'', ''pod'', ''noop'']"

definition PluginEnvKey :: string where
  "PluginEnvKey = ''MACHINE_PLUGIN_TOKEN''"

definition PluginEnvVal :: string where
  "PluginEnvVal = ''42''"

definition PluginEnvDriverName :: string where
  "PluginEnvDriverName = ''MACHINE_PLUGIN_DRIVER_NAME''"

definition PluginUID :: string where
  "PluginUID = ''MACHINE_PLUGIN_UID''"

definition PluginGID :: string where
  "PluginGID = ''MACHINE_PLUGIN_GID''"

subsection \<open>Errors and panics\<close>

datatype NumError = ErrSyntax | ErrRange

text \<open>
  One constructor for each error value the file builds, in the order of the source:
  the not-found struct with its two fields, and one constructor for each format string
  of \<open>fmt.Errorf\<close> carrying the value that is interpolated.
\<close>

datatype error =
    ErrPluginBinaryNotFound string string  \<comment> \<open>driverName, driverPath\<close>
  | ErrParsingUserID NumError              \<comment> \<open>"error parsing user ID: %w"\<close>
  | ErrParsingGroupID NumError             \<comment> \<open>"error parsing group ID: %w"\<close>
  | ErrStdoutPipe string                   \<comment> \<open>"Error getting cmd stdout pipe: %s"\<close>
  | ErrStderrPipe string                   \<comment> \<open>"Error getting cmd stderr pipe: %s"\<close>
  | ErrStartingBinary string               \<comment> \<open>"Error starting plugin binary: %s"\<close>
  | ErrWaitingClose string                 \<comment> \<open>"Error waiting for binary close: %s"\<close>
  | ErrReadingAddress string               \<comment> \<open>"Reading plugin address failed: %s"\<close>
  | ErrClosingBinary error                 \<comment> \<open>"Error closing local plugin binary: %s"\<close>
  | ErrDialTimeout Duration                \<comment> \<open>"Failed to dial the plugin server in %s"\<close>

datatype panic =
    IndexOutOfRange        \<comment> \<open>\<open>os.Args[0]\<close> on an empty argument vector\<close>
  | CloseOfClosedChannel   \<comment> \<open>\<open>close\<close> of a channel that is closed\<close>
  | SendOnClosedChannel    \<comment> \<open>a send on a channel that is closed\<close>
  | NilDereference         \<comment> \<open>a method called through a nil pointer\<close>

subsection \<open>Library functions the file calls\<close>

text \<open>\<open>strconv.Atoi\<close>: an optional sign, then decimal digits; the value must fit Go's
  64-bit \<open>int\<close>.  The digits are read left to right; the first character that is not a
  digit is a syntax error, an unsigned overflow of 64 bits a range error.\<close>

definition isDigit :: "char \<Rightarrow> bool" where
  "isDigit c = (48 \<le> (of_char c :: int) \<and> (of_char c :: int) \<le> 57)"

definition digitVal :: "char \<Rightarrow> int" where
  "digitVal c = of_char c - 48"

fun parseDigits :: "int \<Rightarrow> string \<Rightarrow> NumError + int" where
  "parseDigits n [] = Inr n"
| "parseDigits n (c # cs) =
     (if \<not> isDigit c then Inl ErrSyntax
      else if n * 10 + digitVal c > 2 ^ 64 - 1 then Inl ErrRange
      else parseDigits (n * 10 + digitVal c) cs)"

definition ParseUint :: "string \<Rightarrow> NumError + int" where
  "ParseUint s = (if s = [] then Inl ErrSyntax else parseDigits 0 s)"

definition Atoi :: "string \<Rightarrow> NumError + int" where
  "Atoi s =
     (if s = [] then Inl ErrSyntax
      else
        let neg = (hd s = CHR ''-'');
            s1 = (if hd s = CHR ''+'' \<or> hd s = CHR ''-'' then tl s else s)
        in case ParseUint s1 of
             Inl e \<Rightarrow> Inl e
           | Inr un \<Rightarrow>
               if \<not> neg \<and> un \<ge> 2 ^ 63 then Inl ErrRange
               else if neg \<and> un > 2 ^ 63 then Inl ErrRange
               else Inr (if neg then - un else un))"

text \<open>\<open>filepath.Split\<close> on Unix (the file needs \<open>syscall.Credential\<close>, which only Unix
  has): the path is cut right after its last slash.\<close>

definition Split :: "string \<Rightarrow> string \<times> string" where
  "Split path =
     (let file = rev (takeWhile (\<lambda>c. c \<noteq> CHR ''/'') (rev path))
      in (take (length path - length file) path, file))"

text \<open>\<open>strings.Trim(s, "\n")\<close>: the newlines at both ends are removed.\<close>

definition TrimNewline :: "string \<Rightarrow> string" where
  "TrimNewline s =
     rev (dropWhile (\<lambda>c. c = CHR 0x0A) (rev (dropWhile (\<lambda>c. c = CHR 0x0A) s)))"

text \<open>\<open>strings.TrimSpace\<close>: the white space of Unicode is removed at both ends.  A Go
  string is a sequence of bytes holding UTF-8, so each white space character is the
  byte sequence that encodes it: the six of ASCII, U+0085 and U+00A0 (two bytes), and
  U+1680, U+2000 to U+200A, U+2028, U+2029, U+202F, U+205F and U+3000 (three bytes).\<close>

definition asciiSpace :: "char list" where
  "asciiSpace = [CHR 0x09, CHR 0x0A, CHR 0x0B, CHR 0x0C, CHR 0x0D, CHR 0x20]"

definition unicodeSpaces :: "string list" where
  "unicodeSpaces =
     map (\<lambda>c. [c]) asciiSpace @
     [[CHR 0xC2, CHR 0x85], [CHR 0xC2, CHR 0xA0], [CHR 0xE1, CHR 0x9A, CHR 0x80]] @
     map (\<lambda>c. [CHR 0xE2, CHR 0x80, c])
       [CHR 0x80, CHR 0x81, CHR 0x82, CHR 0x83, CHR 0x84, CHR 0x85, CHR 0x86, CHR 0x87,
        CHR 0x88, CHR 0x89, CHR 0x8A, CHR 0xA8, CHR 0xA9, CHR 0xAF] @
     [[CHR 0xE2, CHR 0x81, CHR 0x9F], [CHR 0xE3, CHR 0x80, CHR 0x80]]"

text \<open>The length of the white space character a string starts with, 0 when it starts
  with none.\<close>

definition leadingSpace :: "string list \<Rightarrow> string \<Rightarrow> nat" where
  "leadingSpace pats s =
     (case List.find (\<lambda>p. take (length p) s = p) pats of
        None \<Rightarrow> 0
      | Some p \<Rightarrow> length p)"

function trimLeft :: "string list \<Rightarrow> string \<Rightarrow> string" where
  "trimLeft pats s =
     (if s = [] \<or> leadingSpace pats s = 0 then s
      else trimLeft pats (drop (leadingSpace pats s) s))"
  by pat_completeness auto
termination
  by (relation "measure (\<lambda>(pats, s). length s)") auto

declare trimLeft.simps [simp del]

definition TrimSpace :: "string \<Rightarrow> string" where
  "TrimSpace s = rev (trimLeft (map rev unicodeSpaces) (rev (trimLeft unicodeSpaces s)))"

subsection \<open>The process, the host and the data of the package\<close>

datatype level = Debug | Info | Warn

type_synonym log_record = "level \<times> string"

record Credential =
  Uid :: "32 word"
  Gid :: "32 word"

text \<open>\<open>exec.Cmd\<close>, with the fields the file sets: \<open>SysProcAttr\<close> is \<open>None\<close> for the nil
  pointer and holds the credential otherwise.\<close>

record Cmd =
  Path :: string
  Args :: "string list"
  SysProcAttr :: "Credential option"

text \<open>A child that was started: the command it was started from and the environment
  it inherited at that moment.\<close>

record child =
  child_cmd :: Cmd
  child_env :: "string \<rightharpoonup> string"

record sys =
  os_Args :: "string list"
  environ :: "string \<rightharpoonup> string"
  CurrentBinaryIsDockerMachine :: bool
  logs :: "log_record list"
  procs :: "child list"

text \<open>What a pipe of the child delivers to a \<open>bufio.Scanner\<close> that splits lines: the
  tokens in order, each with the error \<open>Err()\<close> reports while that token is current (a read
  error can be pending while buffered lines are still handed out), and the error reported
  once the tokens are used up (\<open>None\<close>: end of file).\<close>

record pipe =
  lines :: "(string \<times> string option) list"
  ending :: "string option"

record host =
  LookPath :: "string \<Rightarrow> string + string"  \<comment> \<open>\<open>exec.LookPath\<close>: an error or the path found\<close>
  StdoutPipe :: "string + pipe"             \<comment> \<open>\<open>cmd.StdoutPipe()\<close>\<close>
  StderrPipe :: "string + pipe"             \<comment> \<open>\<open>cmd.StderrPipe()\<close>\<close>
  StartErr :: "string option"               \<comment> \<open>\<open>cmd.Start()\<close>\<close>
  WaitErr :: "string option"                \<comment> \<open>\<open>cmd.Wait()\<close>\<close>

record Scanner =
  pending :: "(string \<times> string option) list"
  atEnd :: "string option"
  tok :: string
  scanErr :: "string option"

definition NewScanner :: "pipe \<Rightarrow> Scanner" where
  "NewScanner p = \<lparr>pending = lines p, atEnd = ending p, tok = [], scanErr = None\<rparr>"

definition Scan :: "Scanner \<Rightarrow> bool \<times> Scanner" where
  "Scan sc =
     (case pending sc of
        [] \<Rightarrow> (False, sc\<lparr>tok := [], scanErr := atEnd sc\<rparr>)
      | (t, e) # rest \<Rightarrow> (True, sc\<lparr>pending := rest, tok := t, scanErr := e\<rparr>))"

definition Text :: "Scanner \<Rightarrow> string" where
  "Text sc = tok sc"

definition Err :: "Scanner \<Rightarrow> string option" where
  "Err sc = scanErr sc"

text \<open>A channel: the values buffered, the capacity it was made with, and whether it
  has been closed.\<close>

record 'a chan =
  buf :: "'a list"
  cap :: nat
  closed :: bool

definition make_chan :: "nat \<Rightarrow> 'a chan" where
  "make_chan n = \<lparr>buf = [], cap = n, closed = False\<rparr>"

record Executor =
  pluginStdout :: "pipe option"
  pluginStderr :: "pipe option"
  DriverName :: string
  cmd :: "Cmd option"
  binaryPath :: string

record Plugin =
  Executor :: Executor
  Addr :: string
  MachineName :: string
  addrCh :: "string chan"
  stopCh :: "bool chan"
  timeout :: Duration

datatype 'a result = Ok 'a | Fail error | Panicked panic

definition Getenv :: "sys \<Rightarrow> string \<Rightarrow> string" where
  "Getenv s k = (case environ s k of None \<Rightarrow> [] | Some v \<Rightarrow> v)"

text \<open>\<open>os.Setenv\<close> refuses an empty key, a key with \<open>=\<close> or a NUL byte and a value with
  a NUL byte; the file drops the error it returns.\<close>

definition Setenv :: "string \<Rightarrow> string \<Rightarrow> sys \<Rightarrow> sys" where
  "Setenv k v s =
     (if k = [] \<or> CHR ''='' \<in> set k \<or> CHR 0x00 \<in> set k \<or> CHR 0x00 \<in> set v then s
      else s\<lparr>environ := (environ s)(k \<mapsto> v)\<rparr>)"

definition Debugf :: "string \<Rightarrow> sys \<Rightarrow> sys" where
  "Debugf msg s = s\<lparr>logs := logs s @ [(Debug, msg)]\<rparr>"

definition Infof :: "string \<Rightarrow> sys \<Rightarrow> sys" where
  "Infof msg s = s\<lparr>logs := logs s @ [(Info, msg)]\<rparr>"

definition Warnf :: "string \<Rightarrow> sys \<Rightarrow> sys" where
  "Warnf msg s = s\<lparr>logs := logs s @ [(Warn, msg)]\<rparr>"

text \<open>\<open>exec.Command(name, arg...)\<close>: the argument vector of the command is the name
  followed by the arguments.  (For a name without a slash the library looks the name up
  again and stores what it finds in \<open>Path\<close>; the argument vector is not touched by
  that, and whether the binary can be started is the host's \<open>StartErr\<close>.)\<close>

definition exec_Command :: "string \<Rightarrow> string list \<Rightarrow> Cmd" where
  "exec_Command name arg = \<lparr>Path = name, Args = name # arg, SysProcAttr = None\<rparr>"

subsection \<open>Finding the binary: \<open>driverPath\<close> and \<open>NewPlugin\<close>\<close>

fun driverPath_loop :: "sys \<Rightarrow> string list \<Rightarrow> string \<Rightarrow> panic + string" where
  "driverPath_loop s [] driverName = Inr (''docker-machine-driver-'' @ driverName)"
| "driverPath_loop s (coreDriver # rest) driverName =
     (if coreDriver = driverName then
        (if CurrentBinaryIsDockerMachine s then
           (case os_Args s of [] \<Rightarrow> Inl IndexOutOfRange | a # _ \<Rightarrow> Inr a)
         else Inr ''rancher-machine'')
      else driverPath_loop s rest driverName)"

definition driverPath :: "sys \<Rightarrow> string \<Rightarrow> panic + string" where
  "driverPath s driverName = driverPath_loop s CoreDrivers driverName"

definition NewPlugin :: "host \<Rightarrow> sys \<Rightarrow> string \<Rightarrow> Plugin result \<times> sys" where
  "NewPlugin h s driverName =
     (let (dir, name) = Split driverName
      in case (if dir = [] then driverPath s driverName else Inr driverName) of
           Inl p \<Rightarrow> (Panicked p, s)
         | Inr path \<Rightarrow>
             (case LookPath h path of
                Inl err \<Rightarrow> (Fail (ErrPluginBinaryNotFound name path), s)
              | Inr found \<Rightarrow>
                  (Ok \<lparr>Executor =
                         \<lparr>pluginStdout = None, pluginStderr = None, DriverName = name,
                          cmd = None, binaryPath = found\<rparr>,
                       Addr = [], MachineName = [],
                       addrCh = make_chan 1, stopCh = make_chan 0, timeout = 0\<rparr>,
                   Debugf (''Found binary path at '' @ found) s)))"

subsection \<open>The executor: \<open>Start\<close> and \<open>Close\<close>\<close>

definition Executor_Start ::
  "host \<Rightarrow> Executor \<Rightarrow> sys \<Rightarrow> (error + Scanner \<times> Scanner) \<times> Executor \<times> sys" where
  "Executor_Start h lbe s0 =
     (let s = Debugf (''Launching plugin server for driver '' @ DriverName lbe) s0;
          c = exec_Command (binaryPath lbe) (os_Args s);
          gid = Getenv s PluginGID;
          uid = Getenv s PluginUID
      in case (if uid \<noteq> [] \<and> gid \<noteq> [] then
                 (case Atoi uid of
                    Inl e \<Rightarrow> Inl (ErrParsingUserID e)
                  | Inr u \<Rightarrow>
                      (case Atoi gid of
                         Inl e \<Rightarrow> Inl (ErrParsingGroupID e)
                       | Inr g \<Rightarrow>
                           Inr (c\<lparr>SysProcAttr :=
                                  Some \<lparr>Uid = word_of_int u, Gid = word_of_int g\<rparr>\<rparr>)))
               else Inr c) of
           Inl e \<Rightarrow> (Inl e, lbe, s)
         | Inr c \<Rightarrow>
             (case StdoutPipe h of
                Inl e \<Rightarrow> (Inl (ErrStdoutPipe e), lbe\<lparr>cmd := Some c, pluginStdout := None\<rparr>, s)
              | Inr po \<Rightarrow>
                  (case StderrPipe h of
                     Inl e \<Rightarrow>
                       (Inl (ErrStderrPipe e),
                        lbe\<lparr>cmd := Some c, pluginStdout := Some po, pluginStderr := None\<rparr>, s)
                   | Inr pe \<Rightarrow>
                       (let lbe' = lbe\<lparr>cmd := Some c, pluginStdout := Some po,
                                       pluginStderr := Some pe\<rparr>;
                            s' = Setenv PluginEnvDriverName (DriverName lbe)
                                   (Setenv PluginEnvKey PluginEnvVal s)
                        in case StartErr h of
                             Some e \<Rightarrow> (Inl (ErrStartingBinary e), lbe', s')
                           | None \<Rightarrow>
                               (Inr (NewScanner po, NewScanner pe), lbe',
                                s'\<lparr>procs := procs s' @
                                     [\<lparr>child_cmd = c, child_env = environ s'\<rparr>]\<rparr>)))))"

text \<open>\<open>Close\<close> waits for the child: \<open>cmd.Wait()\<close> returns when the child has exited.
  Before \<open>Start\<close> has set it, \<open>lbe.cmd\<close> is nil and the call panics.\<close>

definition Executor_Close :: "host \<Rightarrow> Executor \<Rightarrow> panic + error option" where
  "Executor_Close h lbe =
     (case cmd lbe of
        None \<Rightarrow> Inl NilDereference
      | Some c \<Rightarrow>
          (case WaitErr h of
             Some e \<Rightarrow> Inr (Some (ErrWaitingClose e))
           | None \<Rightarrow> Inr None))"

subsection \<open>The goroutines of a plugin\<close>

text \<open>
  \<open>Serve\<close>, \<open>Address\<close> and \<open>Close\<close> run in different goroutines and meet at the two
  channels of the plugin, so they are modelled as an interleaving: a configuration holds
  the plugin, the process state and one program counter for each goroutine, and an event
  lets one goroutine run up to its next channel operation or, in \<open>Address\<close>, its next
  access to the field \<open>lbp.Addr\<close> that other callers write.  A goroutine that cannot move
  (a send with no receiver, a receive on an empty open channel, a timer that has not
  fired) leaves the configuration as it is.  The order of the events is the scheduler's
  choice, and so is the branch of a \<open>select\<close> when several are ready.
\<close>

text \<open>\<open>execServer\<close>: where the goroutine that called \<open>Serve\<close> stands.  The two
  scanners are local variables of the function until they are handed to the relays.\<close>

datatype serve_pc =
    SNotStarted                       \<comment> \<open>before \<open>lbp.Executor.Start()\<close>\<close>
  | SHandshake Scanner Scanner        \<comment> \<open>before \<open>outScanner.Scan()\<close>\<close>
  | SPublish string Scanner Scanner   \<comment> \<open>before \<open>lbp.addrCh <- strings.TrimSpace(addr)\<close>\<close>
  | SLoop                             \<comment> \<open>in the \<open>select\<close> of the loop\<close>
  | SClosing                          \<comment> \<open>the stop case was taken, before \<open>lbp.Executor.Close()\<close>\<close>
  | SReturned "error option"
  | SPanicked panic

text \<open>\<open>stream\<close>: a relay goroutine, scanning or holding a line it sends to the loop.\<close>

datatype relay_pc =
    RNotStarted
  | RScan Scanner           \<comment> \<open>before \<open>scanner.Scan()\<close>\<close>
  | RSend string Scanner    \<comment> \<open>in \<open>streamOutCh <- strings.Trim(line, "\n")\<close>\<close>
  | RDone

text \<open>A goroutine that called \<open>Address\<close> or \<open>Close\<close>.  \<open>Address\<close> returns a pair of a
  string and an error, of which one is the zero value: \<open>Inr addr\<close> for \<open>(addr, nil)\<close> and
  \<open>Inl err\<close> for \<open>("", err)\<close>.\<close>

datatype caller =
    AddressCall                      \<comment> \<open>at the entry of \<open>Address\<close>\<close>
  | AddressCached                    \<comment> \<open>\<open>lbp.Addr\<close> was not empty, before \<open>return lbp.Addr, nil\<close>\<close>
  | AddressSelect Duration           \<comment> \<open>in the \<open>select\<close>, entered at the given time\<close>
  | AddressReceived                  \<comment> \<open>\<open>lbp.Addr\<close> has been received, before \<open>close(lbp.addrCh)\<close>\<close>
  | AddressClosed                    \<comment> \<open>the channel has been closed, before \<open>return lbp.Addr, nil\<close>\<close>
  | AddressReturned "error + string"
  | AddressPanicked panic
  | CloseCall                        \<comment> \<open>in \<open>lbp.stopCh <- true\<close>\<close>
  | CloseSent                        \<comment> \<open>the signal was taken, before \<open>return nil\<close>\<close>
  | CloseReturned "error option"

text \<open>The channel operations and the wait for the child, in the order they happen.\<close>

datatype action =
    SentAddr string        \<comment> \<open>a send on \<open>addrCh\<close>\<close>
  | ReceivedAddr nat string  \<comment> \<open>a receive from \<open>addrCh\<close> by a caller\<close>
  | ClosedAddr nat         \<comment> \<open>\<open>close(addrCh)\<close> by a caller\<close>
  | SentStop nat           \<comment> \<open>a send on \<open>stopCh\<close> by a caller\<close>
  | Waited                 \<comment> \<open>\<open>cmd.Wait()\<close> returned\<close>

record config =
  proc :: sys
  plugin :: Plugin
  serve :: serve_pc
  stdoutRelay :: relay_pc
  stderrRelay :: relay_pc
  callers :: "caller list"
  now :: Duration
  trace :: "action list"

datatype call = CallAddress | CallClose

datatype event =
    Tick nat           \<comment> \<open>so many nanoseconds pass\<close>
  | Call call          \<comment> \<open>a new goroutine calls \<open>Address\<close> or \<open>Close\<close>\<close>
  | ServeStep          \<comment> \<open>\<open>execServer\<close> runs to its next channel operation\<close>
  | SelectStdout       \<comment> \<open>the loop takes a line of the standard output relay\<close>
  | SelectStderr       \<comment> \<open>the loop takes a line of the standard error relay\<close>
  | SelectStop nat     \<comment> \<open>the loop takes the stop signal of a caller\<close>
  | RelayStdout        \<comment> \<open>the standard output relay scans\<close>
  | RelayStderr        \<comment> \<open>the standard error relay scans\<close>
  | Step nat           \<comment> \<open>a caller runs its next piece that is not a \<open>select\<close> case\<close>
  | Receive nat        \<comment> \<open>the \<open>select\<close> of \<open>Address\<close> takes the receive case\<close>
  | Timeout nat        \<comment> \<open>the \<open>select\<close> of \<open>Address\<close> takes the timer case\<close>

definition init :: "Plugin \<Rightarrow> sys \<Rightarrow> config" where
  "init pl s =
     \<lparr>proc = s, plugin = pl, serve = SNotStarted, stdoutRelay = RNotStarted,
      stderrRelay = RNotStarted, callers = [], now = 0, trace = []\<rparr>"

text \<open>\<open>AttachStream\<close> makes the channel and starts \<open>stream\<close> on the scanner in a new
  goroutine, which begins by scanning.\<close>

definition AttachStream :: "Scanner \<Rightarrow> relay_pc" where
  "AttachStream scanner = RScan scanner"

text \<open>\<open>execServer\<close>, one piece for each program counter.  The send on \<open>addrCh\<close> waits
  while the buffer is full; after it the two relays are attached.\<close>

definition execServer_step :: "host \<Rightarrow> config \<Rightarrow> config" where
  "execServer_step h c =
     (case serve c of
        SNotStarted \<Rightarrow>
          (case Executor_Start h (Executor (plugin c)) (proc c) of
             (Inl e, lbe, s) \<Rightarrow>
               c\<lparr>proc := s, plugin := (plugin c)\<lparr>Executor := lbe\<rparr>,
                 serve := SReturned (Some e)\<rparr>
           | (Inr (outScanner, errScanner), lbe, s) \<Rightarrow>
               c\<lparr>proc := s, plugin := (plugin c)\<lparr>Executor := lbe\<rparr>,
                 serve := SHandshake outScanner errScanner\<rparr>)
      | SHandshake outScanner errScanner \<Rightarrow>
          (let outScanner' = snd (Scan outScanner);
               addr = Text outScanner'
           in case Err outScanner' of
                Some e \<Rightarrow> c\<lparr>serve := SReturned (Some (ErrReadingAddress e))\<rparr>
              | None \<Rightarrow> c\<lparr>serve := SPublish (TrimSpace addr) outScanner' errScanner\<rparr>)
      | SPublish a outScanner errScanner \<Rightarrow>
          (let ch = addrCh (plugin c)
           in if closed ch then c\<lparr>serve := SPanicked SendOnClosedChannel\<rparr>
              else if length (buf ch) < cap ch then
                c\<lparr>plugin := (plugin c)\<lparr>addrCh := ch\<lparr>buf := buf ch @ [a]\<rparr>\<rparr>,
                  serve := SLoop,
                  stdoutRelay := AttachStream outScanner,
                  stderrRelay := AttachStream errScanner,
                  trace := trace c @ [SentAddr a]\<rparr>
              else c)
      | SLoop \<Rightarrow> c
      | SClosing \<Rightarrow>
          (case Executor_Close h (Executor (plugin c)) of
             Inl p \<Rightarrow> c\<lparr>serve := SPanicked p\<rparr>
           | Inr (Some e) \<Rightarrow>
               c\<lparr>serve := SReturned (Some (ErrClosingBinary e)), trace := trace c @ [Waited]\<rparr>
           | Inr None \<Rightarrow> c\<lparr>serve := SReturned None, trace := trace c @ [Waited]\<rparr>)
      | SReturned r \<Rightarrow> c
      | SPanicked p \<Rightarrow> c)"

text \<open>\<open>Serve\<close> is \<open>execServer\<close>.\<close>

definition Serve_step :: "host \<Rightarrow> config \<Rightarrow> config" where
  "Serve_step h c = execServer_step h c"

text \<open>The three cases of the \<open>select\<close> in the loop of \<open>execServer\<close>.  A case can be taken
  when its channel has a sender waiting.\<close>

definition pluginOut :: "string \<Rightarrow> string \<Rightarrow> string" where
  "pluginOut name line = ''('' @ name @ '') '' @ line"

definition pluginErr :: "string \<Rightarrow> string \<Rightarrow> string" where
  "pluginErr name line = ''('' @ name @ '') DBG | '' @ line"

definition select_stdout :: "config \<Rightarrow> config" where
  "select_stdout c =
     (case (serve c, stdoutRelay c) of
        (SLoop, RSend out sc) \<Rightarrow>
          c\<lparr>proc := Infof (pluginOut (MachineName (plugin c)) out) (proc c),
            stdoutRelay := RScan sc\<rparr>
      | _ \<Rightarrow> c)"

definition select_stderr :: "config \<Rightarrow> config" where
  "select_stderr c =
     (case (serve c, stderrRelay c) of
        (SLoop, RSend err sc) \<Rightarrow>
          c\<lparr>proc := Debugf (pluginErr (MachineName (plugin c)) err) (proc c),
            stderrRelay := RScan sc\<rparr>
      | _ \<Rightarrow> c)"

definition select_stop :: "nat \<Rightarrow> config \<Rightarrow> config" where
  "select_stop tid c =
     (if serve c = SLoop \<and> tid < length (callers c) \<and> callers c ! tid = CloseCall then
        c\<lparr>serve := SClosing, callers := (callers c)[tid := CloseSent],
          trace := trace c @ [SentStop tid]\<rparr>
      else c)"

text \<open>\<open>stream\<close>: one turn of the loop up to the send.\<close>

definition stream_step :: "relay_pc \<Rightarrow> sys \<Rightarrow> relay_pc \<times> sys" where
  "stream_step r s =
     (case r of
        RScan scanner \<Rightarrow>
          (case Scan scanner of
             (True, scanner') \<Rightarrow>
               (RSend (TrimNewline (Text scanner')) scanner',
                case Err scanner' of
                  Some e \<Rightarrow> Warnf (''Scanning stream: '' @ e) s
                | None \<Rightarrow> s)
           | (False, scanner') \<Rightarrow> (RDone, s))
      | _ \<Rightarrow> (r, s))"

text \<open>\<open>Address\<close>, cut where another goroutine can act on the plugin in between: the
  test of \<open>lbp.Addr\<close> at the entry (with the default timeout and the start of the timer
  when the \<open>select\<close> is entered), the two cases of the \<open>select\<close>, the \<open>close\<close> of the
  channel, and the \<open>return lbp.Addr, nil\<close>, which reads the field again.  The timer of
  \<open>time.After\<close> has fired when the timeout has passed since the \<open>select\<close> was entered.  A
  receive takes the buffered value, or the zero value when the channel is closed and
  empty.\<close>

definition Address_enter :: "nat \<Rightarrow> config \<Rightarrow> config" where
  "Address_enter tid c =
     (if Addr (plugin c) = [] then
        c\<lparr>plugin := (plugin c)\<lparr>timeout :=
              (if timeout (plugin c) = 0 then defaultTimeout else timeout (plugin c))\<rparr>,
          callers := (callers c)[tid := AddressSelect (now c)]\<rparr>
      else c\<lparr>callers := (callers c)[tid := AddressCached]\<rparr>)"

definition Address_receive :: "nat \<Rightarrow> config \<Rightarrow> config" where
  "Address_receive tid c =
     (let ch = addrCh (plugin c)
      in case buf ch of
           v # rest \<Rightarrow>
             c\<lparr>plugin := (plugin c)\<lparr>Addr := v, addrCh := ch\<lparr>buf := rest\<rparr>\<rparr>,
               callers := (callers c)[tid := AddressReceived],
               trace := trace c @ [ReceivedAddr tid v]\<rparr>
         | [] \<Rightarrow>
             if closed ch then
               c\<lparr>plugin := (plugin c)\<lparr>Addr := []\<rparr>,
                 callers := (callers c)[tid := AddressReceived],
                 trace := trace c @ [ReceivedAddr tid []]\<rparr>
             else c)"

definition Address_timeout :: "nat \<Rightarrow> Duration \<Rightarrow> config \<Rightarrow> config" where
  "Address_timeout tid t0 c =
     (if t0 + timeout (plugin c) \<le> now c then
        c\<lparr>callers := (callers c)[tid := AddressReturned (Inl (ErrDialTimeout (timeout (plugin c))))]\<rparr>
      else c)"

definition Address_close :: "nat \<Rightarrow> config \<Rightarrow> config" where
  "Address_close tid c =
     (let s = Debugf (''Plugin server listening at address '' @ Addr (plugin c)) (proc c);
          ch = addrCh (plugin c)
      in if closed ch then
           c\<lparr>proc := s, callers := (callers c)[tid := AddressPanicked CloseOfClosedChannel]\<rparr>
         else
           c\<lparr>proc := s, plugin := (plugin c)\<lparr>addrCh := ch\<lparr>closed := True\<rparr>\<rparr>,
             callers := (callers c)[tid := AddressClosed],
             trace := trace c @ [ClosedAddr tid]\<rparr>)"

definition Address_return :: "nat \<Rightarrow> config \<Rightarrow> config" where
  "Address_return tid c =
     c\<lparr>callers := (callers c)[tid := AddressReturned (Inr (Addr (plugin c)))]\<rparr>"

text \<open>\<open>Plugin.Close\<close>: after the send on \<open>stopCh\<close> (which \<open>select_stop\<close> completes) it
  returns nil.\<close>

definition Plugin_Close_finish :: "nat \<Rightarrow> config \<Rightarrow> config" where
  "Plugin_Close_finish tid c = c\<lparr>callers := (callers c)[tid := CloseReturned None]\<rparr>"

definition caller_step :: "nat \<Rightarrow> config \<Rightarrow> config" where
  "caller_step tid c =
     (if tid < length (callers c) then
        (case callers c ! tid of
           AddressCall \<Rightarrow> Address_enter tid c
         | AddressCached \<Rightarrow> Address_return tid c
         | AddressReceived \<Rightarrow> Address_close tid c
         | AddressClosed \<Rightarrow> Address_return tid c
         | CloseSent \<Rightarrow> Plugin_Close_finish tid c
         | _ \<Rightarrow> c)
      else c)"

definition step :: "host \<Rightarrow> event \<Rightarrow> config \<Rightarrow> config" where
  "step h ev c =
     (case ev of
        Tick d \<Rightarrow> c\<lparr>now := now c + int d\<rparr>
      | Call CallAddress \<Rightarrow> c\<lparr>callers := callers c @ [AddressCall]\<rparr>
      | Call CallClose \<Rightarrow> c\<lparr>callers := callers c @ [CloseCall]\<rparr>
      | ServeStep \<Rightarrow> Serve_step h c
      | SelectStdout \<Rightarrow> select_stdout c
      | SelectStderr \<Rightarrow> select_stderr c
      | SelectStop tid \<Rightarrow> select_stop tid c
      | RelayStdout \<Rightarrow>
          (case stream_step (stdoutRelay c) (proc c) of
             (r, s) \<Rightarrow> c\<lparr>proc := s, stdoutRelay := r\<rparr>)
      | RelayStderr \<Rightarrow>
          (case stream_step (stderrRelay c) (proc c) of
             (r, s) \<Rightarrow> c\<lparr>proc := s, stderrRelay := r\<rparr>)
      | Step tid \<Rightarrow> caller_step tid c
      | Receive tid \<Rightarrow>
          (if tid < length (callers c) then
             (case callers c ! tid of
                AddressSelect t0 \<Rightarrow> Address_receive tid c
              | _ \<Rightarrow> c)
           else c)
      | Timeout tid \<Rightarrow>
          (if tid < length (callers c) then
             (case callers c ! tid of
                AddressSelect t0 \<Rightarrow> Address_timeout tid t0 c
              | _ \<Rightarrow> c)
           else c))"

fun run :: "host \<Rightarrow> event list \<Rightarrow> config \<Rightarrow> config" where
  "run h [] c = c"
| "run h (ev # evs) c = run h evs (step h ev c)"

subsection \<open>An example host and process\<close>

definition ex_out :: pipe where
  "ex_out = \<lparr>lines = [('' 127.0.0.1:4242 '', None), (''ready'', None)], ending = None\<rparr>"

definition ex_err :: pipe where
  "ex_err = \<lparr>lines = [(''debug line'', None)], ending = None\<rparr>"

definition ex_host :: host where
  "ex_host =
     \<lparr>LookPath = (\<lambda>p. if p = ''docker-machine-driver-foo''
                       then Inr ''/usr/local/bin/docker-machine-driver-foo''
                       else Inl ''executable file not found in $PATH''),
      StdoutPipe = Inr ex_out, StderrPipe = Inr ex_err, StartErr = None, WaitErr = None\<rparr>"

definition ex_sys :: sys where
  "ex_sys =
     \<lparr>os_Args = [''rancher-machine'', ''create'', ''box''], environ = Map.empty,
      CurrentBinaryIsDockerMachine = False, logs = [], procs = []\<rparr>"

definition ex_env :: "string \<Rightarrow> string \<Rightarrow> sys" where
  "ex_env uid gid =
     ex_sys\<lparr>environ := (if uid = [] then Map.empty else [PluginUID \<mapsto> uid]) ++
                        (if gid = [] then Map.empty else [PluginGID \<mapsto> gid])\<rparr>"

definition ex_lbe :: Executor where
  "ex_lbe =
     \<lparr>pluginStdout = None, pluginStderr = None, DriverName = ''foo'', cmd = None,
      binaryPath = ''/usr/local/bin/docker-machine-driver-foo''\<rparr>"

definition ex_plugin :: Plugin where
  "ex_plugin =
     \<lparr>Executor = ex_lbe, Addr = [], MachineName = ''box'', addrCh = make_chan 1,
      stopCh = make_chan 0, timeout = 0\<rparr>"

definition ex_silent_host :: host where
  "ex_silent_host = ex_host\<lparr>StdoutPipe := Inr \<lparr>lines = [], ending = None\<rparr>\<rparr>"

definition ex_blank_host :: host where
  "ex_blank_host = ex_host\<lparr>StdoutPipe := Inr \<lparr>lines = [(''   '', None)], ending = None\<rparr>\<rparr>"

definition ex_failing_host :: host where
  "ex_failing_host = ex_host\<lparr>WaitErr := Some ''exit status 1''\<rparr>"

subsection \<open>Invariants of the interleaving\<close>


text \<open>An \<open>Address\<close> call that has not returned.\<close>

fun in_flight :: "caller \<Rightarrow> bool" where
  "in_flight AddressCall = True"
| "in_flight AddressCached = True"
| "in_flight (AddressSelect t0) = True"
| "in_flight AddressReceived = True"
| "in_flight AddressClosed = True"
| "in_flight x = False"

text \<open>The schedules in which \<open>Address\<close> is called one call at a time: a call begins only
  when every earlier call has returned or panicked.\<close>

fun serial :: "host \<Rightarrow> event list \<Rightarrow> config \<Rightarrow> bool" where
  "serial h [] c = True"
| "serial h (ev # evs) c =
     ((if ev = Call CallAddress then list_all (\<lambda>x. \<not> in_flight x) (callers c) else True)
      \<and> serial h evs (step h ev c))"


definition only_nil_closes :: "caller list \<Rightarrow> bool" where
  "only_nil_closes cs = (\<forall>r. CloseReturned r \<in> set cs \<longrightarrow> r = None)"

fun is_SentAddr :: "action \<Rightarrow> bool" where
  "is_SentAddr (SentAddr a) = True"
| "is_SentAddr x = False"

fun before_publish :: "serve_pc \<Rightarrow> bool" where
  "before_publish SNotStarted = True"
| "before_publish (SHandshake out err) = True"
| "before_publish (SPublish a out err) = True"
| "before_publish pc = False"

definition sent_once :: "config \<Rightarrow> bool" where
  "sent_once c =
     (length (filter is_SentAddr (trace c)) \<le> 1
      \<and> (before_publish (serve c) \<longrightarrow> filter is_SentAddr (trace c) = []))"

fun started :: "serve_pc \<Rightarrow> bool" where
  "started (SHandshake out err) = True"
| "started (SPublish a out err) = True"
| "started SLoop = True"
| "started SClosing = True"
| "started pc = False"

definition wait_inv :: "host \<Rightarrow> config \<Rightarrow> bool" where
  "wait_inv h c =
     ((serve c = SReturned None \<longrightarrow> WaitErr h = None \<and> Waited \<in> set (trace c))
      \<and> (started (serve c) \<longrightarrow> cmd (Executor (plugin c)) \<noteq> None))"

fun stop_sent :: "caller \<Rightarrow> bool" where
  "stop_sent CloseSent = True"
| "stop_sent (CloseReturned r) = True"
| "stop_sent x = False"

definition stop_inv :: "config \<Rightarrow> bool" where
  "stop_inv c =
     (\<forall>tid. count_list (trace c) (SentStop tid) =
        (if tid < length (callers c) \<and> stop_sent (callers c ! tid) then 1 else 0))"

section \<open>Properties\<close>

subsection \<open>Auxiliary facts\<close>

lemma Split_no_slash: "CHR ''/'' \<notin> set p \<Longrightarrow> Split p = ([], p)"
proof -
  assume "CHR ''/'' \<notin> set p"
  then have tw: "takeWhile (\<lambda>c. c \<noteq> CHR ''/'') (rev p) = rev p"
    by (auto simp: takeWhile_eq_all_conv)
  show ?thesis unfolding Split_def Let_def tw by simp
qed

lemma Getenv_Debugf [simp]: "Getenv (Debugf m s) k = Getenv s k"
  by (simp add: Getenv_def Debugf_def)

lemma Debugf_fields [simp]:
  "os_Args (Debugf m s) = os_Args s" "procs (Debugf m s) = procs s"
  "environ (Debugf m s) = environ s"
  by (simp_all add: Debugf_def)

lemma Setenv_fields [simp]:
  "os_Args (Setenv k v s) = os_Args s" "procs (Setenv k v s) = procs s"
  by (simp_all add: Setenv_def)

lemma Getenv_ex_env:
  "Getenv (ex_env uid gid) PluginUID = uid" "Getenv (ex_env uid gid) PluginGID = gid"
  by (simp_all add: ex_env_def Getenv_def PluginUID_def PluginGID_def)

lemma procs_ex_env [simp]: "procs (ex_env uid gid) = []"
  by (simp add: ex_env_def ex_sys_def)

lemma uint32_in_range:
  "0 \<le> k \<Longrightarrow> k < 2 ^ 32 \<Longrightarrow> uint (word_of_int k :: 32 word) = k"
  by (simp add: uint_word_of_int_eq take_bit_int_eq_self)

lemma Atoi_1000: "Atoi ''1000'' = Inr 1000"
  by (simp add: Atoi_def ParseUint_def isDigit_def digitVal_def)

lemma Atoi_50: "Atoi ''50'' = Inr 50"
  by (simp add: Atoi_def ParseUint_def isDigit_def digitVal_def)

lemma Atoi_root: "Atoi ''root'' = Inl ErrSyntax"
  by (simp add: Atoi_def ParseUint_def isDigit_def digitVal_def)

subsection \<open>The binary that is not found\<close>

text \<open>
  C9 (as amended).  When the path that \<open>NewPlugin\<close> searches has no binary, \<open>NewPlugin\<close>
  returns the not-found error with the file name component of the requested driver name
  and the path that was searched, and leaves the process as it was: no child is started.
  The file name component is the requested name itself when the name has no slash.
\<close>

theorem NewPlugin_not_found:
  assumes "(if fst (Split driverName) = [] then driverPath s driverName else Inr driverName)
             = Inr path"
      and "LookPath h path = Inl e"
  shows "NewPlugin h s driverName =
           (Fail (ErrPluginBinaryNotFound (snd (Split driverName)) path), s)
         \<and> procs (snd (NewPlugin h s driverName)) = procs s
         \<and> (CHR ''/'' \<notin> set driverName \<longrightarrow> snd (Split driverName) = driverName)"
  using assms by (auto simp: NewPlugin_def Split_no_slash split: prod.splits)

theorem NewPlugin_not_found_witness:
  "NewPlugin ex_host ex_sys ''bar'' =
     (Fail (ErrPluginBinaryNotFound ''bar'' ''docker-machine-driver-bar''), ex_sys)"
  using NewPlugin_not_found [of "''bar''" ex_sys "''docker-machine-driver-bar''" ex_host
      "''executable file not found in $PATH''"]
  by (simp add: Split_def driverPath_def CoreDrivers_def ex_host_def)

text \<open>The claim as it was stated fails for a driver given by its path: the error carries
  the last component, not the name that was requested.\<close>

theorem NewPlugin_requested_name_counterexample:
  "fst (NewPlugin ex_host ex_sys ''/opt/drivers/foo'') =
     Fail (ErrPluginBinaryNotFound ''foo'' ''/opt/drivers/foo'')
   \<and> (\<forall>p. fst (NewPlugin ex_host ex_sys ''/opt/drivers/foo'') \<noteq>
          Fail (ErrPluginBinaryNotFound ''/opt/drivers/foo'' p))"
  by (simp add: NewPlugin_def Split_def ex_host_def)

subsection \<open>The command that \<open>Start\<close> builds\<close>

text \<open>
  C8 (as amended).  When \<open>Start\<close> succeeds, the child it has started has the argument
  vector made of the resolved binary path followed by the whole argument vector of the
  supervising process, its first element included: one element more than the supervisor
  has.
\<close>

theorem Start_argument_vector:
  assumes "Executor_Start h lbe s = (Inr scs, lbe', s')"
  shows "\<exists>ch. procs s' = procs s @ [ch] \<and> cmd lbe' = Some (child_cmd ch)
           \<and> Args (child_cmd ch) = binaryPath lbe # os_Args s
           \<and> length (Args (child_cmd ch)) = length (os_Args s) + 1"
  using assms
  by (auto simp: Executor_Start_def Let_def exec_Command_def
           split: if_splits sum.splits option.splits)

theorem Start_argument_vector_witness:
  "\<exists>ch. procs (snd (snd (Executor_Start ex_host ex_lbe ex_sys))) = procs ex_sys @ [ch]
     \<and> Args (child_cmd ch) =
         [''/usr/local/bin/docker-machine-driver-foo'', ''rancher-machine'', ''create'', ''box'']"
proof -
  obtain scs lbe' s' where e: "Executor_Start ex_host ex_lbe ex_sys = (Inr scs, lbe', s')"
    by (simp add: Executor_Start_def ex_host_def ex_sys_def ex_lbe_def Let_def Getenv_def
          Debugf_def)
  from Start_argument_vector [OF e] show ?thesis
    unfolding e by (auto simp: ex_lbe_def ex_sys_def)
qed

text \<open>The claim as it was stated fails: the first argument of the supervisor is not
  replaced, it follows the binary path.\<close>

theorem Start_argv0_replaced_counterexample:
  "\<exists>ch. procs (snd (snd (Executor_Start ex_host ex_lbe ex_sys))) = [ch]
     \<and> Args (child_cmd ch) =
         [''/usr/local/bin/docker-machine-driver-foo'', ''rancher-machine'', ''create'', ''box'']
     \<and> Args (child_cmd ch) \<noteq> binaryPath ex_lbe # tl (os_Args ex_sys)"
  by (simp add: Executor_Start_def ex_host_def ex_sys_def ex_lbe_def Let_def Getenv_def
        Debugf_def Setenv_def exec_Command_def PluginEnvKey_def PluginEnvDriverName_def
        PluginEnvVal_def)

subsection \<open>The identity of the child\<close>

text \<open>
  C3 (as amended).  Let both identity variables be set (not empty).  If both parse as
  integers, \<open>Start\<close> returns no parse error, the command it builds carries the
  credential that \<open>uint32\<close> makes of the two numbers, which is the identity the numbers
  name when they are not negative and below \<open>2 ^ 32\<close>, and when \<open>Start\<close> succeeds the
  child it has started is the child of that command.  If the user id does not parse, or
  the user id parses and the group id does not, \<open>Start\<close> returns the parse error of that
  variable, and neither the executor, the children nor the environment have changed.
\<close>

theorem Start_identity:
  assumes "Getenv s PluginUID \<noteq> []" and "Getenv s PluginGID \<noteq> []"
      and "Executor_Start h lbe s = (r, lbe', s')"
  shows "(\<forall>u g. Atoi (Getenv s PluginUID) = Inr u \<and> Atoi (Getenv s PluginGID) = Inr g \<longrightarrow>
            (\<exists>cred.
               Uid cred = word_of_int u \<and> Gid cred = word_of_int g
             \<and> (0 \<le> u \<and> u < 2 ^ 32 \<longrightarrow> uint (Uid cred) = u)
             \<and> (0 \<le> g \<and> g < 2 ^ 32 \<longrightarrow> uint (Gid cred) = g)
             \<and> cmd lbe' = Some ((exec_Command (binaryPath lbe) (os_Args s))
                                  \<lparr>SysProcAttr := Some cred\<rparr>)
             \<and> (\<forall>e. r \<noteq> Inl (ErrParsingUserID e) \<and> r \<noteq> Inl (ErrParsingGroupID e))
             \<and> (case r of
                   Inr scs \<Rightarrow>
                     procs s' = procs s @
                       [\<lparr>child_cmd = (exec_Command (binaryPath lbe) (os_Args s))
                                        \<lparr>SysProcAttr := Some cred\<rparr>,
                         child_env = environ s'\<rparr>]
                 | Inl e \<Rightarrow> procs s' = procs s)))
       \<and> (\<forall>e. Atoi (Getenv s PluginUID) = Inl e \<longrightarrow>
            r = Inl (ErrParsingUserID e) \<and> lbe' = lbe \<and> procs s' = procs s
            \<and> environ s' = environ s)
       \<and> (\<forall>u e. Atoi (Getenv s PluginUID) = Inr u \<and> Atoi (Getenv s PluginGID) = Inl e \<longrightarrow>
            r = Inl (ErrParsingGroupID e) \<and> lbe' = lbe \<and> procs s' = procs s
            \<and> environ s' = environ s)"
proof -
  have ok: "\<exists>cred.
               Uid cred = word_of_int u \<and> Gid cred = word_of_int g
             \<and> (0 \<le> u \<and> u < 2 ^ 32 \<longrightarrow> uint (Uid cred) = u)
             \<and> (0 \<le> g \<and> g < 2 ^ 32 \<longrightarrow> uint (Gid cred) = g)
             \<and> cmd lbe' = Some ((exec_Command (binaryPath lbe) (os_Args s))
                                  \<lparr>SysProcAttr := Some cred\<rparr>)
             \<and> (\<forall>e. r \<noteq> Inl (ErrParsingUserID e) \<and> r \<noteq> Inl (ErrParsingGroupID e))
             \<and> (case r of
                   Inr scs \<Rightarrow>
                     procs s' = procs s @
                       [\<lparr>child_cmd = (exec_Command (binaryPath lbe) (os_Args s))
                                        \<lparr>SysProcAttr := Some cred\<rparr>,
                         child_env = environ s'\<rparr>]
                 | Inl e \<Rightarrow> procs s' = procs s)"
    if "Atoi (Getenv s PluginUID) = Inr u" "Atoi (Getenv s PluginGID) = Inr g" for u g
    apply (rule exI [of _ "\<lparr>Uid = word_of_int u, Gid = word_of_int g\<rparr>"])
    using assms that
    by (auto simp: Executor_Start_def Let_def exec_Command_def uint32_in_range
             split: if_splits sum.splits option.splits)
  have bad: "(\<forall>e. Atoi (Getenv s PluginUID) = Inl e \<longrightarrow>
            r = Inl (ErrParsingUserID e) \<and> lbe' = lbe \<and> procs s' = procs s
            \<and> environ s' = environ s)
       \<and> (\<forall>u e. Atoi (Getenv s PluginUID) = Inr u \<and> Atoi (Getenv s PluginGID) = Inl e \<longrightarrow>
            r = Inl (ErrParsingGroupID e) \<and> lbe' = lbe \<and> procs s' = procs s
            \<and> environ s' = environ s)"
    using assms
    by (auto simp: Executor_Start_def Let_def split: if_splits sum.splits option.splits)
  show ?thesis using ok bad by blast
qed

theorem Start_identity_witness:
  "(\<exists>ch. procs (snd (snd (Executor_Start ex_host ex_lbe (ex_env ''1000'' ''50'')))) = [ch]
      \<and> map_option (\<lambda>cr. (uint (Uid cr), uint (Gid cr))) (SysProcAttr (child_cmd ch))
          = Some (1000, 50))
   \<and> fst (Executor_Start ex_host ex_lbe (ex_env ''root'' ''50'')) =
       Inl (ErrParsingUserID ErrSyntax)
   \<and> procs (snd (snd (Executor_Start ex_host ex_lbe (ex_env ''root'' ''50'')))) = []
   \<and> fst (Executor_Start ex_host ex_lbe (ex_env ''1000'' ''root'')) =
       Inl (ErrParsingGroupID ErrSyntax)"
proof -
  obtain r1 l1 s1 where
    e1: "Executor_Start ex_host ex_lbe (ex_env ''1000'' ''50'') = (r1, l1, s1)"
    by (metis prod_cases3)
  obtain r2 l2 s2 where
    e2: "Executor_Start ex_host ex_lbe (ex_env ''root'' ''50'') = (r2, l2, s2)"
    by (metis prod_cases3)
  obtain r3 l3 s3 where
    e3: "Executor_Start ex_host ex_lbe (ex_env ''1000'' ''root'') = (r3, l3, s3)"
    by (metis prod_cases3)
  have ok: "\<exists>scs. r1 = Inr scs"
    using e1
    by (auto simp: Executor_Start_def Let_def Getenv_ex_env Atoi_1000 Atoi_50 ex_host_def)
  have a: "\<exists>ch. procs s1 = [ch]
             \<and> map_option (\<lambda>cr. (uint (Uid cr), uint (Gid cr))) (SysProcAttr (child_cmd ch))
                 = Some (1000, 50)"
    using Start_identity [OF _ _ e1] ok
    by (auto simp: Getenv_ex_env Atoi_1000 Atoi_50 exec_Command_def)
  have b: "r2 = Inl (ErrParsingUserID ErrSyntax) \<and> procs s2 = []"
    using Start_identity [OF _ _ e2] by (simp add: Getenv_ex_env Atoi_root)
  have c: "r3 = Inl (ErrParsingGroupID ErrSyntax)"
    using Start_identity [OF _ _ e3] by (simp add: Getenv_ex_env Atoi_1000 Atoi_root)
  show ?thesis using a b c by (simp add: e1 e2 e3)
qed

text \<open>The claim as it was stated fails for a number that parses and is not below
  \<open>2 ^ 32\<close>: the conversion keeps its low 32 bits, and the child started for the user id
  4294967296 runs as user 0.\<close>

theorem Start_identity_out_of_range_counterexample:
  "Atoi ''4294967296'' = Inr 4294967296
   \<and> Atoi ''50'' = Inr 50
   \<and> (\<exists>ch. procs (snd (snd (Executor_Start ex_host ex_lbe (ex_env ''4294967296'' ''50''))))
              = [ch]
         \<and> map_option (\<lambda>cr. (uint (Uid cr), uint (Gid cr))) (SysProcAttr (child_cmd ch))
             = Some (0, 50))"
proof -
  have a: "Atoi ''4294967296'' = Inr 4294967296"
    by (simp add: Atoi_def ParseUint_def isDigit_def digitVal_def)
  show ?thesis
    by (simp add: a Atoi_50 Executor_Start_def Let_def Getenv_ex_env ex_host_def
          exec_Command_def)
qed

text \<open>
  C4.  When exactly one of the two identity variables is set, \<open>Start\<close> ignores both: the
  command it builds has no credential, whatever the value of the variable that is set;
  \<open>Start\<close> returns no parse error; its result and the executor it leaves are those of a
  start with neither variable set; and when it succeeds, the child it has started has no
  credential.
\<close>

theorem Start_single_identity_variable:
  assumes "(Getenv s PluginUID = []) \<noteq> (Getenv s PluginGID = [])"
      and "Executor_Start h lbe s = (r, lbe', s')"
  shows "cmd lbe' = Some (exec_Command (binaryPath lbe) (os_Args s))
         \<and> SysProcAttr (exec_Command (binaryPath lbe) (os_Args s)) = None
         \<and> (\<forall>e. r \<noteq> Inl (ErrParsingUserID e) \<and> r \<noteq> Inl (ErrParsingGroupID e))
         \<and> (case r of
               Inr scs \<Rightarrow>
                 procs s' = procs s @
                   [\<lparr>child_cmd = exec_Command (binaryPath lbe) (os_Args s),
                     child_env = environ s'\<rparr>]
             | Inl e \<Rightarrow> procs s' = procs s)
         \<and> r = fst (Executor_Start h lbe
                      (s\<lparr>environ := (environ s)(PluginUID := None, PluginGID := None)\<rparr>))
         \<and> lbe' = fst (snd (Executor_Start h lbe
                      (s\<lparr>environ := (environ s)(PluginUID := None, PluginGID := None)\<rparr>)))"
  using assms
  by (auto simp: Executor_Start_def Let_def exec_Command_def Getenv_def Debugf_def
           split: if_splits sum.splits option.splits)

theorem Start_single_identity_variable_witness:
  "(\<exists>ch. procs (snd (snd (Executor_Start ex_host ex_lbe (ex_env ''root'' [])))) = [ch]
      \<and> SysProcAttr (child_cmd ch) = None)
   \<and> (\<exists>ch. procs (snd (snd (Executor_Start ex_host ex_lbe (ex_env [] ''50'')))) = [ch]
      \<and> SysProcAttr (child_cmd ch) = None)"
proof -
  obtain r1 l1 s1 where
    e1: "Executor_Start ex_host ex_lbe (ex_env ''root'' []) = (r1, l1, s1)"
    by (metis prod_cases3)
  obtain r2 l2 s2 where
    e2: "Executor_Start ex_host ex_lbe (ex_env [] ''50'') = (r2, l2, s2)"
    by (metis prod_cases3)
  have ok1: "\<exists>scs. r1 = Inr scs"
    using e1 by (auto simp: Executor_Start_def Let_def Getenv_ex_env ex_host_def)
  have ok2: "\<exists>scs. r2 = Inr scs"
    using e2 by (auto simp: Executor_Start_def Let_def Getenv_ex_env ex_host_def)
  have a: "\<exists>ch. procs s1 = [ch] \<and> SysProcAttr (child_cmd ch) = None"
    using Start_single_identity_variable [OF _ e1] ok1
    by (auto simp: Getenv_ex_env exec_Command_def)
  have b: "\<exists>ch. procs s2 = [ch] \<and> SysProcAttr (child_cmd ch) = None"
    using Start_single_identity_variable [OF _ e2] ok2
    by (auto simp: Getenv_ex_env exec_Command_def)
  show ?thesis using a b by (simp add: e1 e2)
qed

subsection \<open>Facts about the interleaving\<close>

declare Serve_step_def [simp] AttachStream_def [simp]

lemma run_append: "run h (xs @ ys) c = run h ys (run h xs c)"
  by (induction xs arbitrary: c) simp_all

lemma in_set_updD: "x \<in> set (xs[i := v]) \<Longrightarrow> x = v \<or> x \<in> set xs"
  by (metis insertE set_update_subset_insert subsetD)

lemma Start_scanner:
  "Executor_Start h lbe s = (Inr (out, err), lbe', s') \<Longrightarrow> StdoutPipe h = Inr po \<Longrightarrow>
   out = NewScanner po"
  by (auto simp: Executor_Start_def Let_def split: if_splits sum.splits option.splits)

lemma Start_sets_cmd:
  "Executor_Start h lbe s = (Inr scs, lbe', s') \<Longrightarrow> cmd lbe' \<noteq> None"
  by (auto simp: Executor_Start_def Let_def split: if_splits sum.splits option.splits)


lemma TrimSpace_Nil [simp]: "TrimSpace [] = []"
  by (simp add: TrimSpace_def trimLeft.simps)

lemma TrimSpace_blank: "TrimSpace ''   '' = []"
  by code_simp

lemma TrimSpace_ex: "TrimSpace '' 127.0.0.1:4242 '' = ''127.0.0.1:4242''"
  by code_simp

lemmas caller_defs =
  step_def caller_step_def Address_enter_def Address_receive_def Address_close_def Address_return_def
  Address_timeout_def Plugin_Close_finish_def Let_def

lemmas loop_defs = select_stdout_def select_stderr_def select_stop_def

lemmas eval_defs =
  caller_defs loop_defs execServer_step_def Executor_Start_def Executor_Close_def
  stream_step_def init_def Scan_def NewScanner_def Text_def Err_def make_chan_def
  Getenv_def Setenv_def Debugf_def Infof_def Warnf_def exec_Command_def
  ex_host_def ex_sys_def ex_lbe_def ex_plugin_def ex_out_def ex_err_def
  ex_silent_host_def ex_blank_host_def ex_failing_host_def


lemma Start_ex_silent:
  "\<exists>out err lbe s'.
     Executor_Start ex_silent_host (Executor ex_plugin) ex_sys = (Inr (out, err), lbe, s')"
  by (simp add: eval_defs)










text \<open>A \<open>Close\<close> that has returned has returned nil.\<close>

lemma only_nil_closes_update:
  "only_nil_closes cs \<Longrightarrow> \<forall>r. v = CloseReturned r \<longrightarrow> r = None \<Longrightarrow>
   only_nil_closes (cs[i := v])"
  unfolding only_nil_closes_def
  by (metis insertE set_update_subset_insert subsetD)

lemma only_nil_closes_step:
  assumes "only_nil_closes (callers c)"
  shows "only_nil_closes (callers (step h ev c))"
proof (cases ev)
  case (Call k)
  then show ?thesis using assms by (cases k) (auto simp: step_def only_nil_closes_def)
next
  case ServeStep
  then show ?thesis using assms
    by (simp add: step_def execServer_step_def Let_def
          split: serve_pc.splits prod.splits sum.splits option.splits)
next
  case (SelectStop tid)
  then show ?thesis using assms
    by (simp add: step_def select_stop_def only_nil_closes_update)
next
  case (Step tid)
  then show ?thesis using assms
    by (simp add: caller_defs only_nil_closes_update split: caller.splits)
next
  case (Receive tid)
  then show ?thesis using assms
    by (simp add: caller_defs only_nil_closes_update split: caller.splits list.splits)
next
  case (Timeout tid)
  then show ?thesis using assms
    by (simp add: caller_defs only_nil_closes_update split: caller.splits)
qed (use assms in \<open>simp_all add: step_def select_stdout_def select_stderr_def
       split: prod.splits serve_pc.splits relay_pc.splits\<close>)

lemma only_nil_closes_run:
  "only_nil_closes (callers c) \<Longrightarrow> only_nil_closes (callers (run h evs c))"
  by (induction evs arbitrary: c) (simp_all add: only_nil_closes_step)

text \<open>The address channel is sent to at most once, and not before the handshake.\<close>

lemma sent_once_step:
  assumes inv: "sent_once c"
  shows "sent_once (step h ev c)"
proof (cases ev)
  case (Call k)
  then show ?thesis using inv by (cases k) (auto simp: step_def sent_once_def)
next
  case ServeStep
  show ?thesis using inv unfolding ServeStep
    by (cases "serve c")
       (auto simp: step_def sent_once_def execServer_step_def Let_def
             split: prod.splits sum.splits option.splits)
next
  case (Step tid)
  show ?thesis using inv unfolding Step
    by (auto simp: caller_defs sent_once_def split: caller.splits)
next
  case (Receive tid)
  show ?thesis using inv unfolding Receive
    by (auto simp: caller_defs sent_once_def split: caller.splits list.splits)
next
  case (Timeout tid)
  show ?thesis using inv unfolding Timeout
    by (auto simp: caller_defs sent_once_def split: caller.splits)
qed (use inv in \<open>auto simp: step_def sent_once_def loop_defs
          split: prod.splits serve_pc.splits relay_pc.splits\<close>)

lemma sent_once_run: "sent_once c \<Longrightarrow> sent_once (run h evs c)"
  by (induction evs arbitrary: c) (simp_all add: sent_once_step)

text \<open>\<open>Serve\<close> returns nil only after a wait that succeeded, and the command is set from
  the handshake on.\<close>

lemma wait_inv_step:
  assumes inv: "wait_inv h c"
  shows "wait_inv h (step h ev c)"
proof (cases ev)
  case (Call k)
  then show ?thesis using inv by (cases k) (auto simp: step_def wait_inv_def)
next
  case ServeStep
  show ?thesis using inv unfolding ServeStep
    by (cases "serve c")
       (auto simp: step_def wait_inv_def execServer_step_def Executor_Close_def Let_def
             dest: Start_sets_cmd split: prod.splits sum.splits option.splits)
next
  case (Step tid)
  show ?thesis using inv unfolding Step
    by (auto simp: caller_defs wait_inv_def split: caller.splits)
next
  case (Receive tid)
  show ?thesis using inv unfolding Receive
    by (auto simp: caller_defs wait_inv_def split: caller.splits list.splits)
next
  case (Timeout tid)
  show ?thesis using inv unfolding Timeout
    by (auto simp: caller_defs wait_inv_def split: caller.splits)
qed (use inv in \<open>auto simp: step_def wait_inv_def loop_defs
          split: prod.splits serve_pc.splits relay_pc.splits\<close>)

lemma wait_inv_run: "wait_inv h c \<Longrightarrow> wait_inv h (run h evs c)"
  by (induction evs arbitrary: c) (simp_all add: wait_inv_step)

text \<open>A caller has sent one stop signal when its send has been taken, and none before.\<close>

lemma stop_inv_step:
  assumes inv: "stop_inv c"
  shows "stop_inv (step h ev c)"
proof (cases ev)
  case (Call k)
  then show ?thesis using inv by (cases k) (auto simp: step_def stop_inv_def nth_append)
next
  case ServeStep
  show ?thesis using inv unfolding ServeStep
    by (cases "serve c")
       (auto simp: step_def stop_inv_def execServer_step_def Let_def
             split: prod.splits sum.splits option.splits)
next
  case (SelectStop t)
  show ?thesis using inv unfolding SelectStop
    by (auto simp: step_def stop_inv_def select_stop_def nth_list_update)
next
  case (Step t)
  show ?thesis using inv unfolding Step
    by (auto simp: caller_defs stop_inv_def nth_list_update split: caller.splits)
next
  case (Receive t)
  show ?thesis using inv unfolding Receive
    by (auto simp: caller_defs stop_inv_def nth_list_update split: caller.splits list.splits)
next
  case (Timeout t)
  show ?thesis using inv unfolding Timeout
    by (auto simp: caller_defs stop_inv_def nth_list_update split: caller.splits)
qed (use inv in \<open>auto simp: step_def stop_inv_def loop_defs
          split: prod.splits serve_pc.splits relay_pc.splits\<close>)

lemma stop_inv_run: "stop_inv c \<Longrightarrow> stop_inv (run h evs c)"
  by (induction evs arbitrary: c) (simp_all add: stop_inv_step)

text \<open>The plugin that \<open>NewPlugin\<close> returns has no address cached, an empty open address
  channel of capacity one and no timeout set.\<close>

lemma NewPlugin_fresh:
  "NewPlugin h s driverName = (Ok pl, s') \<Longrightarrow>
   Addr pl = [] \<and> addrCh pl = make_chan 1 \<and> stopCh pl = make_chan 0 \<and> timeout pl = 0
   \<and> cmd (Executor pl) = None"
  by (auto simp: NewPlugin_def split: prod.splits sum.splits if_splits)

subsection \<open>The handshake\<close>

text \<open>A read error before the first line: when the scanner reports an error and no
  first line, \<open>Serve\<close> returns the read error and nothing is sent on the address channel.\<close>

lemma Serve_fails_on_read_error:
  assumes "addrCh pl = make_chan 1"
      and "Executor_Start h (Executor pl) s = (Inr (out, err), lbe, s')"
      and "StdoutPipe h = Inr po" and "lines po = []" and "ending po = Some e"
  shows "let c = run h [ServeStep, ServeStep] (init pl s)
         in serve c = SReturned (Some (ErrReadingAddress e))
            \<and> addrCh (plugin c) = make_chan 1 \<and> trace c = []"
proof -
  have out: "out = NewScanner po" using assms(2,3) by (rule Start_scanner)
  show ?thesis
    using assms(1,2,4,5) unfolding out
    by (simp add: init_def step_def execServer_step_def Let_def Scan_def NewScanner_def
          Text_def Err_def make_chan_def)
qed

text \<open>
  C1 (what the code does where the claim fails).  When the standard output of the child
  ends before a first line, the scanner reports no error; \<open>Serve\<close> does not fail: it sends
  the empty string on the address channel and enters the loop, and \<open>Address\<close> returns the
  empty address with no error.
\<close>

theorem Serve_publishes_empty_address_at_end_of_output:
  assumes "Addr pl = []" and "addrCh pl = make_chan 1"
      and "Executor_Start h (Executor pl) s = (Inr (out, err), lbe, s')"
      and "StdoutPipe h = Inr po" and "lines po = []" and "ending po = None"
  shows "(let c = run h [ServeStep, ServeStep, ServeStep] (init pl s)
          in serve c = SLoop \<and> buf (addrCh (plugin c)) = [[]] \<and> trace c = [SentAddr []])
       \<and> callers (run h [ServeStep, ServeStep, ServeStep, Call CallAddress, Step 0, Receive 0,
                         Step 0, Step 0] (init pl s)) ! 0
           = AddressReturned (Inr [])"
proof -
  have out: "out = NewScanner po" using assms(3,4) by (rule Start_scanner)
  show ?thesis
    using assms(1,2,3,5,6) unfolding out
    by (simp add: init_def caller_defs execServer_step_def Scan_def NewScanner_def
          Text_def Err_def make_chan_def)
qed

theorem Serve_publishes_empty_address_at_end_of_output_witness:
  "serve (run ex_silent_host [ServeStep, ServeStep, ServeStep] (init ex_plugin ex_sys)) = SLoop
   \<and> buf (addrCh (plugin (run ex_silent_host [ServeStep, ServeStep, ServeStep]
                             (init ex_plugin ex_sys)))) = [[]]
   \<and> callers (run ex_silent_host [ServeStep, ServeStep, ServeStep, Call CallAddress, Step 0,
                 Receive 0, Step 0, Step 0] (init ex_plugin ex_sys)) ! 0
       = AddressReturned (Inr [])"
proof -
  obtain out err lbe s' where
    e: "Executor_Start ex_silent_host (Executor ex_plugin) ex_sys = (Inr (out, err), lbe, s')"
    using Start_ex_silent by blast
  have a: "Addr ex_plugin = []" "addrCh ex_plugin = make_chan 1"
    by (simp_all add: ex_plugin_def)
  have p: "StdoutPipe ex_silent_host = Inr \<lparr>lines = [], ending = None\<rparr>"
    by (simp add: ex_silent_host_def ex_host_def)
  show ?thesis
    using Serve_publishes_empty_address_at_end_of_output [OF a e p] by (simp add: Let_def)
qed

text \<open>Two \<open>Address\<close> calls under way at once can spoil the result of the first: the
  second receives the zero value from the channel the first has closed and stores it in
  \<open>lbp.Addr\<close> before the first reads the field for its return.  The schedules of the next
  theorem's last part therefore take one call at a time.\<close>

lemma Address_overlapping_calls_race:
  "callers (run ex_host [Call CallAddress, Call CallAddress, Step 0, Step 1, ServeStep,
              ServeStep, ServeStep, Receive 0, Step 0, Receive 1, Step 0]
              (init ex_plugin ex_sys)) ! 0
     = AddressReturned (Inr [])
   \<and> \<not> serial ex_host [Call CallAddress, Call CallAddress, Step 0, Step 1, ServeStep,
              ServeStep, ServeStep, Receive 0, Step 0, Receive 1, Step 0]
              (init ex_plugin ex_sys)"
  by (simp add: eval_defs TrimSpace_ex)



subsection \<open>The address accessor\<close>

text \<open>
  C5.  Let \<open>Address\<close> be called while no address is cached and the address channel is
  empty and open, and let \<open>T\<close> be the timeout of the plugin, or ten seconds when that is
  zero.  The call sets the timeout to \<open>T\<close> and waits in its \<open>select\<close>, where it cannot
  receive.  While less than \<open>T\<close> has passed the timer case cannot be taken either; once
  \<open>T\<close> has passed it can, and then \<open>Address\<close> returns the timeout error carrying \<open>T\<close>,
  with the channel as it was (open), no address cached and no channel operation done.
  If \<open>Serve\<close> sends the address after that, a later call of \<open>Address\<close> returns it.
\<close>

theorem Address_times_out:
  assumes "tid < length (callers c)" and "callers c ! tid = AddressCall"
      and "Addr (plugin c) = []"
      and "buf (addrCh (plugin c)) = []" and "\<not> closed (addrCh (plugin c))"
      and "T = (if timeout (plugin c) = 0 then defaultTimeout else timeout (plugin c))"
  shows "defaultTimeout = 10 * 1000000000
       \<and> (let c1 = step h (Step tid) c
          in callers c1 ! tid = AddressSelect (now c) \<and> timeout (plugin c1) = T
             \<and> step h (Receive tid) c1 = c1)
       \<and> (\<forall>d. int d < T \<longrightarrow>
            (let c2 = run h [Step tid, Tick d] c
             in step h (Timeout tid) c2 = c2 \<and> step h (Receive tid) c2 = c2))
       \<and> (\<forall>d. T \<le> int d \<longrightarrow>
            (let c3 = run h [Step tid, Tick d, Timeout tid] c
             in callers c3 ! tid = AddressReturned (Inl (ErrDialTimeout T))
                \<and> addrCh (plugin c3) = addrCh (plugin c)
                \<and> \<not> closed (addrCh (plugin c3))
                \<and> Addr (plugin c3) = []
                \<and> trace c3 = trace c))
       \<and> (\<forall>d a out err.
            T \<le> int d \<and> serve c = SPublish a out err \<and> cap (addrCh (plugin c)) = 1 \<longrightarrow>
            (let n = length (callers c);
                 c4 = run h [Step tid, Tick d, Timeout tid, ServeStep, Call CallAddress,
                             Step n, Receive n, Step n, Step n] c
             in callers c4 ! tid = AddressReturned (Inl (ErrDialTimeout T))
                \<and> callers c4 ! n = AddressReturned (Inr a)))"
proof -
  have p0: "defaultTimeout = 10 * 1000000000"
    by (simp add: defaultTimeout_def Second_def)
  have p1: "let c1 = step h (Step tid) c
          in callers c1 ! tid = AddressSelect (now c) \<and> timeout (plugin c1) = T
             \<and> step h (Receive tid) c1 = c1"
    using assms by (simp add: caller_defs)
  have p2: "let c2 = run h [Step tid, Tick d] c
             in step h (Timeout tid) c2 = c2 \<and> step h (Receive tid) c2 = c2"
    if "int d < T" for d
    using assms that by (auto simp: caller_defs)
  have p3: "let c3 = run h [Step tid, Tick d, Timeout tid] c
             in callers c3 ! tid = AddressReturned (Inl (ErrDialTimeout T))
                \<and> addrCh (plugin c3) = addrCh (plugin c)
                \<and> \<not> closed (addrCh (plugin c3))
                \<and> Addr (plugin c3) = []
                \<and> trace c3 = trace c"
    if "T \<le> int d" for d
    using assms that by (auto simp: caller_defs)
  have p4: "let n = length (callers c);
                 c4 = run h [Step tid, Tick d, Timeout tid, ServeStep, Call CallAddress,
                             Step n, Receive n, Step n, Step n] c
             in callers c4 ! tid = AddressReturned (Inl (ErrDialTimeout T))
                \<and> callers c4 ! n = AddressReturned (Inr a)"
    if "T \<le> int d" "serve c = SPublish a out err" "cap (addrCh (plugin c)) = 1"
    for d a out err
    using assms that
    by (auto simp: caller_defs execServer_step_def nth_append)
  show ?thesis using p0 p1 p2 p3 p4 by blast
qed

theorem Address_times_out_witness:
  "callers (run ex_host [ServeStep, ServeStep, Call CallAddress, Step 0, Tick 10000000000,
              Timeout 0] (init ex_plugin ex_sys)) ! 0
     = AddressReturned (Inl (ErrDialTimeout 10000000000))
   \<and> \<not> closed (addrCh (plugin (run ex_host [ServeStep, ServeStep, Call CallAddress, Step 0,
                                  Tick 10000000000, Timeout 0] (init ex_plugin ex_sys))))
   \<and> callers (run ex_host [ServeStep, ServeStep, Call CallAddress, Step 0, Tick 9999999999,
              Timeout 0] (init ex_plugin ex_sys)) ! 0
     = AddressSelect 0
   \<and> callers (run ex_host [ServeStep, ServeStep, Call CallAddress, Step 0, Tick 10000000000,
              Timeout 0, ServeStep, Call CallAddress, Step 1, Receive 1, Step 1, Step 1]
              (init ex_plugin ex_sys)) ! 1
     = AddressReturned (Inr ''127.0.0.1:4242'')"
proof -
  define c where "c = run ex_host [ServeStep, ServeStep, Call CallAddress] (init ex_plugin ex_sys)"
  have c: "callers c = [AddressCall]" "Addr (plugin c) = []" "buf (addrCh (plugin c)) = []"
    "\<not> closed (addrCh (plugin c))" "timeout (plugin c) = 0" "cap (addrCh (plugin c)) = 1"
    "now c = 0"
    by (simp_all add: c_def eval_defs)
  have "\<exists>out err. serve c = SPublish ''127.0.0.1:4242'' out err"
    by (simp add: c_def eval_defs TrimSpace_ex)
  then obtain out err where s: "serve c = SPublish ''127.0.0.1:4242'' out err"
    by blast
  have r: "run ex_host ([ServeStep, ServeStep, Call CallAddress] @ evs) (init ex_plugin ex_sys)
             = run ex_host evs c" for evs
    unfolding c_def by (rule run_append)
  have T: "defaultTimeout = (if timeout (plugin c) = 0 then defaultTimeout
             else timeout (plugin c))"
    by (simp add: c)
  have dT: "defaultTimeout = 10000000000"
    by (simp add: defaultTimeout_def Second_def)
  have h: "0 < length (callers c)" "callers c ! 0 = AddressCall"
    by (simp_all add: c)
  note th = Address_times_out [OF h c(2,3,4) T, of ex_host]
  have p1: "callers (step ex_host (Step 0) c) ! 0 = AddressSelect 0"
    using th [THEN conjunct2, THEN conjunct1] by (simp add: Let_def c)
  have p2: "step ex_host (Timeout 0) (run ex_host [Step 0, Tick 9999999999] c)
              = run ex_host [Step 0, Tick 9999999999] c"
    using th [THEN conjunct2, THEN conjunct2, THEN conjunct1, rule_format, of 9999999999]
    by (simp add: Let_def dT)
  have p3: "callers (run ex_host [Step 0, Tick 10000000000, Timeout 0] c) ! 0
              = AddressReturned (Inl (ErrDialTimeout 10000000000))
            \<and> \<not> closed (addrCh (plugin (run ex_host [Step 0, Tick 10000000000, Timeout 0] c)))"
    using th [THEN conjunct2, THEN conjunct2, THEN conjunct2, THEN conjunct1, rule_format,
              of 10000000000]
    by (simp add: Let_def dT c)
  have p4: "callers (run ex_host [Step 0, Tick 10000000000, Timeout 0, ServeStep,
              Call CallAddress, Step 1, Receive 1, Step 1, Step 1] c) ! 1
              = AddressReturned (Inr ''127.0.0.1:4242'')"
    using th [THEN conjunct2, THEN conjunct2, THEN conjunct2, THEN conjunct2, rule_format,
              of 10000000000 "''127.0.0.1:4242''" out err] s
    by (simp add: Let_def dT c)
  have tick: "callers (step ex_host (Tick d) x) = callers x" for d x
    by (simp add: step_def)
  have p2': "callers (run ex_host [Step 0, Tick 9999999999, Timeout 0] c) ! 0 = AddressSelect 0"
    using p1 p2 by (simp add: tick)
  show ?thesis
    using p2' p3 p4
          r [of "[Step 0, Tick 10000000000, Timeout 0]"]
          r [of "[Step 0, Tick 9999999999, Timeout 0]"]
          r [of "[Step 0, Tick 10000000000, Timeout 0, ServeStep, Call CallAddress, Step 1,
                  Receive 1, Step 1, Step 1]"]
    by simp
qed

text \<open>
  C6 (as amended).  Let a first call of \<open>Address\<close> receive an address that is not empty.
  It returns that address, caches it and closes the channel.  A second call made after it
  finds the address cached at its entry and returns the same address: it does not enter
  the \<open>select\<close>, no time passes, the channel is not touched and no channel operation is
  recorded.  In every interleaving the address channel is sent to at most once.
\<close>

theorem Address_second_call_cached:
  assumes "t1 < length (callers c)" and "callers c ! t1 = AddressCall"
      and "t2 < length (callers c)" and "callers c ! t2 = AddressCall" and "t1 \<noteq> t2"
      and "Addr (plugin c) = []"
      and "buf (addrCh (plugin c)) = [a]" and "\<not> closed (addrCh (plugin c))"
      and "a \<noteq> []"
  shows "(let c1 = run h [Step t1, Receive t1, Step t1, Step t1] c;
              c2 = run h [Step t2, Step t2] c1
          in callers c1 ! t1 = AddressReturned (Inr a)
             \<and> Addr (plugin c1) = a
             \<and> buf (addrCh (plugin c1)) = [] \<and> closed (addrCh (plugin c1))
             \<and> trace c1 = trace c @ [ReceivedAddr t1 a, ClosedAddr t1]
             \<and> callers (step h (Step t2) c1) ! t2 = AddressCached
             \<and> callers c2 ! t2 = AddressReturned (Inr a)
             \<and> addrCh (plugin c2) = addrCh (plugin c1)
             \<and> trace c2 = trace c1
             \<and> now c2 = now c1)
       \<and> length (filter is_SentAddr (trace (run h evs (init pl s)))) \<le> 1"
proof -
  have "sent_once (run h evs (init pl s))"
    by (rule sent_once_run) (simp add: sent_once_def init_def)
  then have once: "length (filter is_SentAddr (trace (run h evs (init pl s)))) \<le> 1"
    by (simp add: sent_once_def)
  show ?thesis using assms once by (auto simp: caller_defs)
qed

theorem Address_second_call_cached_witness:
  "callers (run ex_host [ServeStep, ServeStep, ServeStep, Call CallAddress, Call CallAddress,
              Step 0, Receive 0, Step 0, Step 0, Step 1, Step 1] (init ex_plugin ex_sys))
     = [AddressReturned (Inr ''127.0.0.1:4242''), AddressReturned (Inr ''127.0.0.1:4242'')]
   \<and> length (filter is_SentAddr (trace (run ex_host [ServeStep, ServeStep, ServeStep,
        Call CallAddress, Call CallAddress, Step 0, Receive 0, Step 0, Step 0, Step 1, Step 1]
        (init ex_plugin ex_sys)))) \<le> 1"
proof -
  define c where "c = run ex_host [ServeStep, ServeStep, ServeStep, Call CallAddress,
                          Call CallAddress] (init ex_plugin ex_sys)"
  define c2 where "c2 = run ex_host [Step 1, Step 1]
                          (run ex_host [Step 0, Receive 0, Step 0, Step 0] c)"
  have c: "callers c = [AddressCall, AddressCall]" "Addr (plugin c) = []"
    "buf (addrCh (plugin c)) = [''127.0.0.1:4242'']" "\<not> closed (addrCh (plugin c))"
    by (simp_all add: c_def eval_defs TrimSpace_ex)
  have r: "run ex_host ([ServeStep, ServeStep, ServeStep, Call CallAddress, Call CallAddress]
             @ [Step 0, Receive 0, Step 0, Step 0, Step 1, Step 1]) (init ex_plugin ex_sys) = c2"
    unfolding c_def c2_def run_append by simp
  have h: "0 < length (callers c)" "callers c ! 0 = AddressCall"
          "1 < length (callers c)" "callers c ! 1 = AddressCall" "(0::nat) \<noteq> 1"
          "''127.0.0.1:4242'' \<noteq> []"
    by (simp_all add: c)
  have len: "length (callers c2) = 2"
    by (simp add: c2_def caller_defs c)
  from Address_second_call_cached [OF h(1-5) c(2,3,4) h(6), of ex_host
      "[ServeStep, ServeStep, ServeStep, Call CallAddress, Call CallAddress,
        Step 0, Receive 0, Step 0, Step 0, Step 1, Step 1]" ex_plugin ex_sys]
  have "callers (run ex_host [Step 0, Receive 0, Step 0, Step 0] c) ! 0
          = AddressReturned (Inr ''127.0.0.1:4242'')"
       "callers c2 ! 1 = AddressReturned (Inr ''127.0.0.1:4242'')"
       "length (filter is_SentAddr (trace (run ex_host [ServeStep, ServeStep, ServeStep,
          Call CallAddress, Call CallAddress, Step 0, Receive 0, Step 0, Step 0, Step 1, Step 1]
          (init ex_plugin ex_sys)))) \<le> 1"
    unfolding c2_def by (simp_all add: Let_def)
  moreover have "callers c2 ! 0 = callers (run ex_host [Step 0, Receive 0, Step 0, Step 0] c) ! 0"
    by (simp add: c2_def caller_defs c)
  ultimately show ?thesis
    using r len by (auto simp: list_eq_iff_nth_eq less_Suc_eq numeral_2_eq_2)
qed

text \<open>The claim as it was stated fails when the address received is empty (the first
  line of the child is blank): the first call returns the empty address with no error,
  the second call does not find an address cached but enters the \<open>select\<close>, receives
  from the closed channel and panics when it closes the channel again.\<close>

theorem Address_second_call_empty_counterexample:
  "callers (run ex_blank_host [ServeStep, ServeStep, ServeStep, Call CallAddress,
              Call CallAddress, Step 0, Receive 0, Step 0, Step 0, Step 1]
              (init ex_plugin ex_sys))
     = [AddressReturned (Inr []), AddressSelect 0]
   \<and> callers (run ex_blank_host [ServeStep, ServeStep, ServeStep, Call CallAddress,
              Call CallAddress, Step 0, Receive 0, Step 0, Step 0, Step 1, Receive 1, Step 1]
              (init ex_plugin ex_sys))
     = [AddressReturned (Inr []), AddressPanicked CloseOfClosedChannel]"
  by (simp add: eval_defs TrimSpace_blank)

subsection \<open>Stopping\<close>

text \<open>
  C7.  In every configuration \<open>c\<close> that an interleaving reaches from the start:
  if \<open>Serve\<close> has returned nil, the wait for the child has been done and has succeeded;
  no caller has sent more than one stop signal, and a \<open>Close\<close> that has returned has sent
  exactly one.  When the loop is active and a caller is in the send of \<open>Close\<close>, the loop
  can take the signal; \<open>Serve\<close> then runs the executor's \<open>Close\<close>, which waits for the
  child, and returns nil when the wait succeeds and the wrapped wait error otherwise; and
  \<open>Close\<close> returns nil as soon as its signal is taken, while \<open>Serve\<close> has not returned.
\<close>

theorem Serve_stops_on_signal:
  assumes "c = run h evs (init pl s)"
  shows "(serve c = SReturned None \<longrightarrow> WaitErr h = None \<and> Waited \<in> set (trace c))
       \<and> (\<forall>tid. count_list (trace c) (SentStop tid) \<le> 1)
       \<and> (\<forall>tid r. tid < length (callers c) \<and> callers c ! tid = CloseReturned r \<longrightarrow>
             count_list (trace c) (SentStop tid) = 1)
       \<and> (\<forall>tid. serve c = SLoop \<and> tid < length (callers c) \<and> callers c ! tid = CloseCall \<longrightarrow>
            (let c1 = step h (SelectStop tid) c;
                 c2 = step h ServeStep c1;
                 c3 = step h (Step tid) c1
             in serve c1 = SClosing \<and> callers c1 ! tid = CloseSent
                \<and> trace c1 = trace c @ [SentStop tid]
                \<and> serve c2 =
                    SReturned (case WaitErr h of
                                 None \<Rightarrow> None
                               | Some e \<Rightarrow> Some (ErrClosingBinary (ErrWaitingClose e)))
                \<and> trace c2 = trace c1 @ [Waited]
                \<and> callers c3 ! tid = CloseReturned None \<and> serve c3 = SClosing
                \<and> trace c3 = trace c1))"
proof -
  have w: "wait_inv h c"
    unfolding assms by (rule wait_inv_run) (simp add: wait_inv_def init_def)
  have st: "stop_inv c"
    unfolding assms by (rule stop_inv_run) (simp add: stop_inv_def init_def)
  have p1: "serve c = SReturned None \<longrightarrow> WaitErr h = None \<and> Waited \<in> set (trace c)"
    using w by (simp add: wait_inv_def)
  have p2: "count_list (trace c) (SentStop tid) \<le> 1" for tid
    using st by (simp add: stop_inv_def)
  have p3: "count_list (trace c) (SentStop tid) = 1"
    if "tid < length (callers c)" "callers c ! tid = CloseReturned r" for tid r
    using st that by (simp add: stop_inv_def)
  have p4: "let c1 = step h (SelectStop tid) c;
                 c2 = step h ServeStep c1;
                 c3 = step h (Step tid) c1
             in serve c1 = SClosing \<and> callers c1 ! tid = CloseSent
                \<and> trace c1 = trace c @ [SentStop tid]
                \<and> serve c2 =
                    SReturned (case WaitErr h of
                                 None \<Rightarrow> None
                               | Some e \<Rightarrow> Some (ErrClosingBinary (ErrWaitingClose e)))
                \<and> trace c2 = trace c1 @ [Waited]
                \<and> callers c3 ! tid = CloseReturned None \<and> serve c3 = SClosing
                \<and> trace c3 = trace c1"
    if "serve c = SLoop" "tid < length (callers c)" "callers c ! tid = CloseCall" for tid
  proof -
    have "cmd (Executor (plugin c)) \<noteq> None"
      using w that(1) by (simp add: wait_inv_def)
    then show ?thesis
      using that
      by (auto simp: caller_defs select_stop_def execServer_step_def Executor_Close_def
               split: option.splits)
  qed
  show ?thesis using p1 p2 p3 p4 by blast
qed

theorem Serve_stops_on_signal_witness:
  "serve (run ex_failing_host [ServeStep, ServeStep, ServeStep, Call CallClose, SelectStop 0,
            ServeStep] (init ex_plugin ex_sys))
     = SReturned (Some (ErrClosingBinary (ErrWaitingClose ''exit status 1'')))
   \<and> callers (run ex_failing_host [ServeStep, ServeStep, ServeStep, Call CallClose,
                SelectStop 0, Step 0] (init ex_plugin ex_sys)) ! 0 = CloseReturned None
   \<and> serve (run ex_failing_host [ServeStep, ServeStep, ServeStep, Call CallClose,
                SelectStop 0, Step 0] (init ex_plugin ex_sys)) = SClosing
   \<and> serve (run ex_host [ServeStep, ServeStep, ServeStep, Call CallClose, SelectStop 0,
            ServeStep] (init ex_plugin ex_sys)) = SReturned None"
proof -
  define evs where "evs = [ServeStep, ServeStep, ServeStep, Call CallClose]"
  define c where "c = run ex_failing_host evs (init ex_plugin ex_sys)"
  define c' where "c' = run ex_host evs (init ex_plugin ex_sys)"
  have c: "serve c = SLoop" "0 < length (callers c)" "callers c ! 0 = CloseCall"
    by (simp_all add: c_def evs_def eval_defs)
  have c': "serve c' = SLoop" "0 < length (callers c')" "callers c' ! 0 = CloseCall"
    by (simp_all add: c'_def evs_def eval_defs)
  have w: "WaitErr ex_failing_host = Some ''exit status 1''" "WaitErr ex_host = None"
    by (simp_all add: ex_failing_host_def ex_host_def)
  have r: "run ex_failing_host (evs @ es) (init ex_plugin ex_sys) = run ex_failing_host es c"
          "run ex_host (evs @ es) (init ex_plugin ex_sys) = run ex_host es c'" for es
    unfolding c_def c'_def by (rule run_append)+
  have a: "serve (step ex_failing_host ServeStep (step ex_failing_host (SelectStop 0) c))
             = SReturned (Some (ErrClosingBinary (ErrWaitingClose ''exit status 1'')))"
          "callers (step ex_failing_host (Step 0) (step ex_failing_host (SelectStop 0) c)) ! 0
             = CloseReturned None"
          "serve (step ex_failing_host (Step 0) (step ex_failing_host (SelectStop 0) c))
             = SClosing"
    using Serve_stops_on_signal [OF c_def, THEN conjunct2, THEN conjunct2, THEN conjunct2,
            rule_format, of 0] c w
    by (simp_all add: Let_def)
  have b: "serve (step ex_host ServeStep (step ex_host (SelectStop 0) c')) = SReturned None"
    using Serve_stops_on_signal [OF c'_def, THEN conjunct2, THEN conjunct2, THEN conjunct2,
            rule_format, of 0] c' w
    by (simp add: Let_def)
  show ?thesis
    using a b r(1) [of "[SelectStop 0, ServeStep]"] r(1) [of "[SelectStop 0, Step 0]"]
          r(2) [of "[SelectStop 0, ServeStep]"]
    by (simp add: evs_def)
qed

text \<open>
  C10.  In every interleaving from the start, a \<open>Close\<close> that has returned has returned
  nil, whatever the wait for the child gives.
\<close>

theorem Plugin_Close_returns_nil:
  assumes "tid < length (callers (run h evs (init pl s)))"
      and "callers (run h evs (init pl s)) ! tid = CloseReturned r"
  shows "r = None"
proof -
  have "only_nil_closes (callers (run h evs (init pl s)))"
    by (rule only_nil_closes_run) (simp add: init_def only_nil_closes_def)
  then show ?thesis using assms unfolding only_nil_closes_def by (metis nth_mem)
qed

theorem Plugin_Close_returns_nil_witness:
  "\<exists>r. callers (run ex_failing_host [ServeStep, ServeStep, ServeStep, Call CallClose,
                  SelectStop 0, Step 0, ServeStep] (init ex_plugin ex_sys)) ! 0 = CloseReturned r
        \<and> r = None
        \<and> serve (run ex_failing_host [ServeStep, ServeStep, ServeStep, Call CallClose,
                  SelectStop 0, Step 0, ServeStep] (init ex_plugin ex_sys))
            = SReturned (Some (ErrClosingBinary (ErrWaitingClose ''exit status 1'')))"
proof -
  define c where "c = run ex_failing_host [ServeStep, ServeStep, ServeStep, Call CallClose,
                  SelectStop 0, Step 0, ServeStep] (init ex_plugin ex_sys)"
  have l: "0 < length (callers c)"
    by (simp add: c_def eval_defs)
  have "\<exists>r. callers c ! 0 = CloseReturned r"
    by (simp add: c_def eval_defs)
  then obtain r where e: "callers c ! 0 = CloseReturned r" by blast
  have s: "serve c = SReturned (Some (ErrClosingBinary (ErrWaitingClose ''exit status 1'')))"
    by (simp add: c_def eval_defs)
  have "r = None"
    using l e unfolding c_def by (rule Plugin_Close_returns_nil)
  then show ?thesis using e s unfolding c_def by blast
qed

end
